theory Spec2Isabelle
  imports Main
begin

text \<open>
  The authentication store of the client hub (\<^verbatim>\<open>AuthContext\<close>: the provider component,
  its bootstrap, its listener and its three operations) and the router of
  \<^verbatim>\<open>App.tsx\<close>, as functions of their inputs. A run of the store's code is the list of
  what it does, in program order; the answers of the external provider and the moments
  at which the component is torn down are arguments. The definitions come first, the
  properties after them.
\<close>

section \<open>Data model\<close>

text \<open>
  The store module (\<^verbatim>\<open>AuthContext\<close>) mirrors three objects of the external provider:
  the \<^verbatim>\<open>User\<close> (id, email), the \<^verbatim>\<open>Session\<close> (which carries its user) and the
  application's \<^verbatim>\<open>Profile\<close> row (id, email, full_name, role, timestamp).
  Every TypeScript value of type \<^verbatim>\<open>T | null\<close> is an \<open>option\<close>.
\<close>

record User =
  user_id :: string
  user_email :: string

record Session =
  session_user :: "User option"
  access_token :: string

record Profile =
  profile_id :: string
  profile_email :: string
  full_name :: "string option"
  role :: string
  updated_at :: string

text \<open>
  What a JavaScript \<^verbatim>\<open>throw\<close> carries, and what the provider returns in the
  \<^verbatim>\<open>error\<close> field of its \<^verbatim>\<open>{data, error}\<close> results: a provider error with its
  \<^verbatim>\<open>code\<close>, an \<^verbatim>\<open>Error\<close> with its message, or the \<^verbatim>\<open>TypeError\<close> of a property
  read on \<^verbatim>\<open>null\<close>.
\<close>

datatype js_error = ProviderError string | Error string | TypeError

fun error_code :: "js_error \<Rightarrow> string option" where
  "error_code (ProviderError c) = Some c"
| "error_code (Error m) = None"
| "error_code TypeError = None"

text \<open>The fields the context exposes (\<^verbatim>\<open>AuthContextType\<close>, lines 5-14), and the
  component's state, which adds the private \<^verbatim>\<open>initialized\<close> flag (lines 27-32).\<close>

record AuthContextType =
  user :: "User option"
  profile :: "Profile option"
  session :: "Session option"
  loading :: bool
  error :: "string option"

record AuthState = AuthContextType +
  initialized :: bool

text \<open>The initial values of the six \<^verbatim>\<open>useState\<close> calls: the state of the first render.\<close>

definition initial_state :: AuthState where
  "initial_state =
     \<lparr>user = None, profile = None, session = None, loading = True, error = None,
      initialized = False\<rparr>"

text \<open>The \<^verbatim>\<open>value\<close> object handed to \<^verbatim>\<open>AuthContext.Provider\<close> (lines 328-337),
  without its three operations, which are modelled as functions below.\<close>

definition context_value :: "AuthState \<Rightarrow> AuthContextType" where
  "context_value s =
     \<lparr>user = user s, profile = profile s, session = session s, loading = loading s,
      error = error s\<rparr>"

section \<open>The context hook\<close>

text \<open>
  \<^verbatim>\<open>useContext\<close> returns the value of the nearest enclosing provider of the context,
  or the default given to \<^verbatim>\<open>createContext\<close> when the component has no such ancestor.
  The enclosing providers are a list of their values, nearest first.
\<close>

fun useContext :: "'a \<Rightarrow> 'a list \<Rightarrow> 'a" where
  "useContext dflt [] = dflt"
| "useContext dflt (v # _) = v"

text \<open>\<^verbatim>\<open>createContext<AuthContextType | undefined>(undefined)\<close>: the default is
  \<^verbatim>\<open>undefined\<close>, here \<open>None\<close>.\<close>

definition useAuth :: "AuthContextType option list \<Rightarrow> js_error + AuthContextType" where
  "useAuth enclosing =
     (case useContext None enclosing of
        None \<Rightarrow> Inl (Error ''useAuth must be used within an AuthProvider'')
      | Some context \<Rightarrow> Inr context)"

section \<open>The router\<close>

text \<open>The five things \<^verbatim>\<open>AppContent\<close> can return. The profile-pending screen prints
  the user's email.\<close>

datatype view =
    LoadingScreen
  | AuthForm
  | ProfileSetupScreen string
  | AdminPortal
  | ClientPortal

definition AppContent :: "AuthContextType option list \<Rightarrow> js_error + view" where
  "AppContent enclosing =
     (case useAuth enclosing of
        Inl e \<Rightarrow> Inl e
      | Inr ctx \<Rightarrow>
          Inr (if loading ctx then LoadingScreen
               else (case user ctx of
                       None \<Rightarrow> AuthForm
                     | Some u \<Rightarrow>
                         (case profile ctx of
                            None \<Rightarrow> ProfileSetupScreen (user_email u)
                          | Some p \<Rightarrow>
                              if role p = ''admin'' then AdminPortal else ClientPortal))))"

text \<open>\<^verbatim>\<open>App\<close> renders \<^verbatim>\<open>AppContent\<close> inside one \<^verbatim>\<open>AuthProvider\<close>.\<close>

definition App :: "AuthState \<Rightarrow> js_error + view" where
  "App s = AppContent [Some (context_value s)]"

section \<open>The provider, and what the store does\<close>

text \<open>
  The external provider is known to the store through the \<^verbatim>\<open>supabase\<close> client, which is
  \<^verbatim>\<open>null\<close> when it could not be built, and through the flag \<^verbatim>\<open>hasSupabaseConfig\<close>.
  Both are imported from \<^verbatim>\<open>../lib/supabase\<close>; every function below takes them as
  arguments.

  An \<^verbatim>\<open>await\<close> ends with the promise resolved to a value or rejected with an error.
  The provider's calls resolve to \<^verbatim>\<open>{data, error}\<close> objects: a pair of options.
\<close>

datatype 'a promise = Resolved 'a | Rejected js_error

type_synonym 'a response = "'a option \<times> js_error option"

text \<open>
  The client is the answers the provider gives. \<open>auth_getSession\<close> is \<open>None\<close> when the
  request is still pending as the 5000 ms timer of \<^verbatim>\<open>initializeAuth\<close> fires. The profile
  query is asked by user id; its second argument is the number of the attempt, since a
  later attempt can be answered differently.
\<close>

record SupabaseClient =
  auth_getSession :: "(Session response promise) option"
  from_profiles_select :: "string \<Rightarrow> nat \<Rightarrow> Profile response promise"
  auth_signOut :: "js_error option promise"
  from_profiles_update :: "string \<Rightarrow> (string \<times> string) list \<Rightarrow> string \<Rightarrow> Profile response promise"
  auth_admin_createUser :: "string \<Rightarrow> string \<Rightarrow> string option \<Rightarrow> User response promise"
  from_profiles_insert :: "string \<Rightarrow> string \<Rightarrow> string option \<Rightarrow> string \<Rightarrow> js_error option promise"

datatype provider_call =
    GetSession
  | OnAuthStateChange
  | SelectProfile string
  | SignOut
  | UpdateProfile string "(string \<times> string) list" string
  | AdminCreateUser string string "string option"
  | InsertProfile string string "string option" string

text \<open>
  What a run of the store's code does, in program order: the calls of the state setters,
  the provider's methods it invokes, the delays it waits for, and the navigations
  (\<^verbatim>\<open>window.location.href = path\<close>, at once or from a \<^verbatim>\<open>setTimeout\<close>).
  \<open>Sleep ms\<close> is an awaited \<^verbatim>\<open>setTimeout\<close> of \<open>ms\<close> milliseconds.
\<close>

datatype effect =
    SetUser "User option"
  | SetProfile "Profile option"
  | SetSession "Session option"
  | SetLoading bool
  | SetError "string option"
  | SetInitialized bool
  | Call provider_call
  | Sleep nat
  | Navigate string
  | SetTimeoutNavigate nat string

fun apply_effect :: "AuthState \<Rightarrow> effect \<Rightarrow> AuthState" where
  "apply_effect s (SetUser u) = s\<lparr>user := u\<rparr>"
| "apply_effect s (SetProfile p) = s\<lparr>profile := p\<rparr>"
| "apply_effect s (SetSession x) = s\<lparr>session := x\<rparr>"
| "apply_effect s (SetLoading b) = s\<lparr>loading := b\<rparr>"
| "apply_effect s (SetError m) = s\<lparr>error := m\<rparr>"
| "apply_effect s (SetInitialized b) = s\<lparr>initialized := b\<rparr>"
| "apply_effect s (Call c) = s"
| "apply_effect s (Sleep ms) = s"
| "apply_effect s (Navigate path) = s"
| "apply_effect s (SetTimeoutNavigate ms path) = s"

definition apply_effects :: "effect list \<Rightarrow> AuthState \<Rightarrow> AuthState" where
  "apply_effects effects s = foldl apply_effect s effects"

fun is_state_write :: "effect \<Rightarrow> bool" where
  "is_state_write (Call c) = False"
| "is_state_write (Sleep ms) = False"
| "is_state_write (Navigate path) = False"
| "is_state_write (SetTimeoutNavigate ms path) = False"
| "is_state_write e = True"

fun is_provider_call :: "effect \<Rightarrow> bool" where
  "is_provider_call (Call c) = True"
| "is_provider_call e = False"

definition state_writes :: "effect list \<Rightarrow> effect list" where
  "state_writes effects = filter is_state_write effects"

definition provider_calls :: "effect list \<Rightarrow> effect list" where
  "provider_calls effects = filter is_provider_call effects"

text \<open>\<^verbatim>\<open>clearAuthState\<close> (lines 35-41).\<close>

definition clearAuthState :: "effect list" where
  "clearAuthState = [SetUser None, SetProfile None, SetSession None, SetError None]"

section \<open>Fetching the profile\<close>

text \<open>
  One pass through the \<^verbatim>\<open>try\<close> block of \<^verbatim>\<open>fetchProfile\<close> (lines 48-67), given how the
  awaited query ended: \<open>Inr\<close> is the value the function returns, \<open>Inl\<close> the error that
  goes to the \<^verbatim>\<open>catch\<close>. A rejected promise throws; an error with code PGRST116 returns
  \<^verbatim>\<open>null\<close>; any other error is thrown; with no error, line 66 reads \<^verbatim>\<open>data.role\<close>,
  which throws a TypeError when \<^verbatim>\<open>data\<close> is \<^verbatim>\<open>null\<close>, and line 67 returns the row.
\<close>

fun fetch_attempt :: "Profile response promise \<Rightarrow> js_error + Profile option" where
  "fetch_attempt (Rejected e) = Inl e"
| "fetch_attempt (Resolved (d, Some e)) =
     (if error_code e = Some ''PGRST116'' then Inr None else Inl e)"
| "fetch_attempt (Resolved (None, None)) = Inl TypeError"
| "fetch_attempt (Resolved (Some p, None)) = Inr (Some p)"

text \<open>
  The \<^verbatim>\<open>for\<close> loop (lines 47-79) from a given value of \<^verbatim>\<open>attempt\<close>: every attempt
  queries the provider; the \<^verbatim>\<open>catch\<close> returns \<^verbatim>\<open>null\<close> on the last attempt and
  otherwise waits \<^verbatim>\<open>Math.pow(2, attempt) * 500\<close> milliseconds and goes round again.
\<close>

function fetchProfile_loop ::
  "SupabaseClient \<Rightarrow> string \<Rightarrow> nat \<Rightarrow> nat \<Rightarrow> effect list \<times> Profile option" where
  "fetchProfile_loop sb userId retries attempt =
     (if attempt \<le> retries then
        (case fetch_attempt (from_profiles_select sb userId attempt) of
           Inr result \<Rightarrow> ([Call (SelectProfile userId)], result)
         | Inl e \<Rightarrow>
             if attempt = retries then ([Call (SelectProfile userId)], None)
             else (case fetchProfile_loop sb userId retries (attempt + 1) of
                     (later, result) \<Rightarrow>
                       (Call (SelectProfile userId) # Sleep (2 ^ attempt * 500) # later,
                        result)))
      else ([], None))"
  by pat_completeness auto
termination
  by (relation "measure (\<lambda>(sb, userId, retries, attempt). Suc retries - attempt)") auto

declare fetchProfile_loop.simps [simp del]

text \<open>\<^verbatim>\<open>fetchProfile(userId, retries = 3)\<close>: nothing is asked when there is no client.\<close>

definition fetchProfile ::
  "SupabaseClient option \<Rightarrow> string \<Rightarrow> nat \<Rightarrow> effect list \<times> Profile option" where
  "fetchProfile supabase userId retries =
     (case supabase of
        None \<Rightarrow> ([], None)
      | Some sb \<Rightarrow> fetchProfile_loop sb userId retries 1)"

text \<open>The default of the \<^verbatim>\<open>retries\<close> parameter, which every call site relies on.\<close>

definition default_retries :: nat where
  "default_retries = 3"

text \<open>
  The vocabulary of the retry policy. A query is "not found" when it resolves with an
  error whose code is PGRST116; it is a failure when the \<^verbatim>\<open>try\<close> block throws.
  \<open>backoff_trace userId n\<close> is what \<open>n\<close> attempts look like when each one but the last is
  followed by its delay of \<open>2 ^ attempt * 500\<close> milliseconds.
\<close>

fun not_found :: "Profile response promise \<Rightarrow> bool" where
  "not_found (Resolved (d, Some e)) = (error_code e = Some ''PGRST116'')"
| "not_found r = False"

definition failed_attempt :: "Profile response promise \<Rightarrow> bool" where
  "failed_attempt r = isl (fetch_attempt r)"

fun backoff_trace :: "string \<Rightarrow> nat \<Rightarrow> effect list" where
  "backoff_trace userId 0 = []"
| "backoff_trace userId (Suc 0) = [Call (SelectProfile userId)]"
| "backoff_trace userId (Suc (Suc n)) =
     backoff_trace userId (Suc n) @ [Sleep (2 ^ Suc n * 500), Call (SelectProfile userId)]"

section \<open>Bootstrap\<close>

text \<open>
  \<^verbatim>\<open>Promise.race([sessionPromise, timeoutPromise])\<close> (lines 104-112): the session
  request if it has settled, the timer's rejection if it has not.
\<close>

fun session_race :: "'a promise option \<Rightarrow> 'a promise" where
  "session_race None = Rejected (Error ''Session fetch timeout'')"
| "session_race (Some settled) = settled"

text \<open>\<^verbatim>\<open>session?.user\<close>.\<close>

fun optional_user :: "Session option \<Rightarrow> User option" where
  "optional_user None = None"
| "optional_user (Some s) = session_user s"

text \<open>
  \<^verbatim>\<open>initializeAuth\<close> (lines 89-153). The local flag \<^verbatim>\<open>mounted\<close> is set to true on
  line 86 and cleared only by the cleanup function, which can run while the function is
  suspended at an \<^verbatim>\<open>await\<close>. The two flags are the values it has after the session
  request and after the profile fetch. Nothing is awaited before line 92, where it is
  still true. Past the guard of line 90 the client is not \<^verbatim>\<open>null\<close>.
\<close>

definition bootstrap_done :: "effect list" where
  "bootstrap_done = [SetLoading False, SetInitialized True]"

definition initializeAuth ::
  "bool \<Rightarrow> SupabaseClient option \<Rightarrow> bool \<Rightarrow> bool \<Rightarrow> effect list" where
  "initializeAuth hasSupabaseConfig supabase mounted_after_session mounted_after_fetch =
     (if \<not> hasSupabaseConfig \<or> supabase = None then
        SetError (Some ''Supabase is not configured. Please connect to Supabase.'')
          # bootstrap_done
      else
        Call GetSession #
        (case session_race (auth_getSession (the supabase)) of
           Rejected e \<Rightarrow>
             if mounted_after_session then clearAuthState @ bootstrap_done else []
         | Resolved (sess, sessionError) \<Rightarrow>
             if \<not> mounted_after_session then []
             else if sessionError \<noteq> None then clearAuthState @ bootstrap_done
             else
               (case optional_user sess of
                  Some u \<Rightarrow>
                    (case fetchProfile supabase (user_id u) default_retries of
                       (fetching, userProfile) \<Rightarrow>
                         [SetSession sess, SetUser (Some u)] @ fetching @
                         (if mounted_after_fetch then [SetProfile userProfile] else []) @
                         (if mounted_after_fetch then bootstrap_done else []))
                | None \<Rightarrow> clearAuthState @ bootstrap_done)))"

section \<open>The listener\<close>

text \<open>
  The \<^verbatim>\<open>switch\<close> of the callback (lines 167-213). \<open>held_profile\<close> is the value of the
  variable \<^verbatim>\<open>profile\<close> that the callback reads on line 204. The second component tells
  whether the branch awaited a profile fetch. Nothing in the \<^verbatim>\<open>try\<close> block can throw
  (the setters do not, and \<^verbatim>\<open>fetchProfile\<close> catches every error of its own), so the
  \<^verbatim>\<open>catch\<close> of lines 214-218 has no branch here.
\<close>

definition adopt_and_fetch ::
  "SupabaseClient option \<Rightarrow> bool \<Rightarrow> effect list \<Rightarrow> User \<Rightarrow> effect list" where
  "adopt_and_fetch supabase mounted_after_fetch adopted u =
     (case fetchProfile supabase (user_id u) default_retries of
        (fetching, userProfile) \<Rightarrow>
          adopted @ fetching @ (if mounted_after_fetch then [SetProfile userProfile] else []))"

definition event_switch ::
  "Profile option \<Rightarrow> SupabaseClient option \<Rightarrow> bool \<Rightarrow> string \<Rightarrow> Session option \<Rightarrow>
   effect list \<times> bool" where
  "event_switch held_profile supabase mounted_after_fetch event sess =
     (if event = ''SIGNED_IN'' \<or> event = ''TOKEN_REFRESHED'' then
        (case optional_user sess of
           Some u \<Rightarrow>
             (adopt_and_fetch supabase mounted_after_fetch
                [SetSession sess, SetUser (Some u), SetError None] u, True)
         | None \<Rightarrow> ([], False))
      else if event = ''SIGNED_OUT'' then (clearAuthState, False)
      else if event = ''USER_UPDATED'' then
        (case optional_user sess of
           Some u \<Rightarrow> ([SetSession sess, SetUser (Some u)], False)
         | None \<Rightarrow> ([], False))
      else
        (case optional_user sess of
           Some u \<Rightarrow>
             if (case held_profile of None \<Rightarrow> True | Some p \<Rightarrow> profile_id p \<noteq> user_id u)
             then (adopt_and_fetch supabase mounted_after_fetch
                     [SetSession sess, SetUser (Some u)] u, True)
             else ([SetSession sess, SetUser (Some u)], False)
         | None \<Rightarrow> (clearAuthState, False)))"

text \<open>
  The whole callback (lines 161-225): the guard on \<^verbatim>\<open>mounted\<close>, the switch, and the
  \<^verbatim>\<open>finally\<close> block, which reads \<^verbatim>\<open>mounted\<close> again (after the fetch, if there was
  one) and the variable \<^verbatim>\<open>initialized\<close>, here \<open>seen_initialized\<close>.
\<close>

definition onAuthStateChange_callback ::
  "Profile option \<Rightarrow> bool \<Rightarrow> SupabaseClient option \<Rightarrow> bool \<Rightarrow> bool \<Rightarrow> string \<Rightarrow>
   Session option \<Rightarrow> effect list" where
  "onAuthStateChange_callback held_profile seen_initialized supabase
       mounted_at_entry mounted_after_fetch event sess =
     (if \<not> mounted_at_entry then []
      else
        (case event_switch held_profile supabase mounted_after_fetch event sess of
           (handled, awaited) \<Rightarrow>
             handled @
             (if (if awaited then mounted_after_fetch else True) \<and> \<not> seen_initialized
              then bootstrap_done else [])))"

text \<open>
  The effect that registers the callback (lines 85-240) has an empty dependency array
  ("only run once"): it runs after the first render, and the callback is a closure over
  that render's constants \<^verbatim>\<open>profile\<close> and \<^verbatim>\<open>initialized\<close>, which are the initial values
  of their \<^verbatim>\<open>useState\<close>. Later renders bind new constants, which this closure never
  sees. The listener that the provider calls for the lifetime of the component is
  therefore the callback at those two values.
\<close>

definition auth_listener ::
  "SupabaseClient option \<Rightarrow> bool \<Rightarrow> bool \<Rightarrow> string \<Rightarrow> Session option \<Rightarrow> effect list" where
  "auth_listener =
     onAuthStateChange_callback (profile initial_state) (initialized initial_state)"

text \<open>\<^verbatim>\<open>setupAuthListener\<close> (lines 156-228) subscribes when there is a client.\<close>

definition setupAuthListener :: "SupabaseClient option \<Rightarrow> effect list" where
  "setupAuthListener supabase =
     (case supabase of None \<Rightarrow> [] | Some sb \<Rightarrow> [Call OnAuthStateChange])"

section \<open>The operations\<close>

text \<open>
  \<^verbatim>\<open>signOut\<close> (lines 242-272). When the provider's promise resolves, with an error or
  without, the state is cleared and the navigation is scheduled 100 ms later; when it
  rejects, the \<^verbatim>\<open>catch\<close> navigates at once; the \<^verbatim>\<open>finally\<close> block runs in both cases.
\<close>

definition signOut :: "SupabaseClient option \<Rightarrow> effect list" where
  "signOut supabase =
     (case supabase of
        None \<Rightarrow> []
      | Some sb \<Rightarrow>
          [SetLoading True, Call SignOut] @
          (case auth_signOut sb of
             Resolved signOutError \<Rightarrow> clearAuthState @ [SetTimeoutNavigate 100 ''/'']
           | Rejected e \<Rightarrow> [Navigate ''/'']) @
          [SetLoading False])"

text \<open>
  \<^verbatim>\<open>updateProfile\<close> (lines 274-292), called on a render whose state is \<open>s\<close>;
  \<open>now\<close> is \<^verbatim>\<open>new Date().toISOString()\<close>. The result is \<open>Inl\<close> of the error rethrown
  to the caller, or \<open>Inr ()\<close>.
\<close>

definition updateProfile ::
  "AuthState \<Rightarrow> SupabaseClient option \<Rightarrow> (string \<times> string) list \<Rightarrow> string \<Rightarrow>
   effect list \<times> (js_error + unit)" where
  "updateProfile s supabase updates now =
     (case user s of
        None \<Rightarrow> ([], Inr ())
      | Some u \<Rightarrow>
          (case supabase of
             None \<Rightarrow> ([], Inr ())
           | Some sb \<Rightarrow>
               (case from_profiles_update sb (user_id u) updates now of
                  Rejected e \<Rightarrow> ([Call (UpdateProfile (user_id u) updates now)], Inl e)
                | Resolved (d, Some e) \<Rightarrow>
                    ([Call (UpdateProfile (user_id u) updates now)], Inl e)
                | Resolved (d, None) \<Rightarrow>
                    ([Call (UpdateProfile (user_id u) updates now), SetProfile d], Inr ()))))"

text \<open>
  \<^verbatim>\<open>createClient\<close> (lines 294-326). Account creation resolves to
  \<^verbatim>\<open>{data: {user}, error}\<close>; reading \<^verbatim>\<open>data.user.id\<close> of a missing user throws a
  TypeError. Every error is caught, logged and rethrown.
\<close>

definition createClient ::
  "SupabaseClient option \<Rightarrow> string \<Rightarrow> string \<Rightarrow> string option \<Rightarrow>
   effect list \<times> (js_error + unit)" where
  "createClient supabase email password fullName =
     (case supabase of
        None \<Rightarrow> ([], Inl (Error ''Supabase not configured''))
      | Some sb \<Rightarrow>
          (case auth_admin_createUser sb email password fullName of
             Rejected e \<Rightarrow> ([Call (AdminCreateUser email password fullName)], Inl e)
           | Resolved (d, Some e) \<Rightarrow>
               ([Call (AdminCreateUser email password fullName)], Inl e)
           | Resolved (None, None) \<Rightarrow>
               ([Call (AdminCreateUser email password fullName)], Inl TypeError)
           | Resolved (Some created, None) \<Rightarrow>
               (case from_profiles_insert sb (user_id created) email fullName ''client'' of
                  Rejected e \<Rightarrow>
                    ([Call (AdminCreateUser email password fullName),
                      Call (InsertProfile (user_id created) email fullName ''client'')], Inl e)
                | Resolved (Some profileError) \<Rightarrow>
                    ([Call (AdminCreateUser email password fullName),
                      Call (InsertProfile (user_id created) email fullName ''client'')],
                     Inl profileError)
                | Resolved None \<Rightarrow>
                    ([Call (AdminCreateUser email password fullName),
                      Call (InsertProfile (user_id created) email fullName ''client'')],
                     Inr ()))))"

text \<open>Where a run navigates to, and the values it writes to \<^verbatim>\<open>loading\<close>, in order.\<close>

fun navigation_target :: "effect \<Rightarrow> string option" where
  "navigation_target (Navigate path) = Some path"
| "navigation_target (SetTimeoutNavigate ms path) = Some path"
| "navigation_target e = None"

definition navigates_to :: "string \<Rightarrow> effect list \<Rightarrow> bool" where
  "navigates_to path effects = (Some path \<in> set (map navigation_target effects))"

fun loading_writes :: "effect list \<Rightarrow> bool list" where
  "loading_writes [] = []"
| "loading_writes (SetLoading b # effects) = b # loading_writes effects"
| "loading_writes (e # effects) = loading_writes effects"

text \<open>The default branch of the switch: events other than the four named ones.\<close>

definition other_event :: "string \<Rightarrow> bool" where
  "other_event event =
     (event \<noteq> ''SIGNED_IN'' \<and> event \<noteq> ''TOKEN_REFRESHED'' \<and> event \<noteq> ''SIGNED_OUT'' \<and>
      event \<noteq> ''USER_UPDATED'')"

section \<open>Example values\<close>

text \<open>A user, a session of that user and the user's profile row, and a store that
  holds all three.\<close>

definition example_user :: User where
  "example_user = \<lparr>user_id = ''u1'', user_email = ''ada@example.org''\<rparr>"

definition example_session :: Session where
  "example_session = \<lparr>session_user = Some example_user, access_token = ''token-1''\<rparr>"

definition example_profile :: Profile where
  "example_profile =
     \<lparr>profile_id = ''u1'', profile_email = ''ada@example.org'', full_name = Some ''Ada'',
      role = ''client'', updated_at = ''2024-01-01T00:00:00.000Z''\<rparr>"

definition example_signed_in :: AuthState where
  "example_signed_in =
     \<lparr>user = Some example_user, profile = Some example_profile,
      session = Some example_session, loading = False, error = None, initialized = True\<rparr>"

text \<open>A provider that answers every request without an error, and has no stored
  session; and variants of it in which one kind of request fails.\<close>

definition example_provider :: SupabaseClient where
  "example_provider =
     \<lparr>auth_getSession = Some (Resolved (None, None)),
      from_profiles_select = (\<lambda>userId attempt. Resolved (Some example_profile, None)),
      auth_signOut = Resolved None,
      from_profiles_update = (\<lambda>userId updates now. Resolved (Some example_profile, None)),
      auth_admin_createUser =
        (\<lambda>email password fullName.
           Resolved (Some \<lparr>user_id = ''u2'', user_email = email\<rparr>, None)),
      from_profiles_insert = (\<lambda>userId email fullName r. Resolved None)\<rparr>"



definition provider_signOut_error :: SupabaseClient where
  "provider_signOut_error =
     example_provider\<lparr>auth_signOut := Resolved (Some (ProviderError ''session_not_found''))\<rparr>"

definition provider_signOut_throws :: SupabaseClient where
  "provider_signOut_throws =
     example_provider\<lparr>auth_signOut := Rejected (Error ''Failed to fetch'')\<rparr>"

definition provider_insert_error :: SupabaseClient where
  "provider_insert_error =
     example_provider
       \<lparr>from_profiles_insert :=
          (\<lambda>userId email fullName r. Resolved (Some (ProviderError ''23505'')))\<rparr>"

section \<open>Properties of the hook and the router\<close>

lemma useAuth_inside_provider: "useAuth (Some c # outer) = Inr c"
  by (simp add: useAuth_def)

text \<open>
  C10. A component with no enclosing \<^verbatim>\<open>AuthProvider\<close> reads the context's default,
  \<^verbatim>\<open>undefined\<close>, and \<^verbatim>\<open>useAuth\<close> throws the error with the message
  "useAuth must be used within an AuthProvider": it never returns a store.
\<close>

theorem useAuth_outside_provider_throws:
  "useAuth [] = Inl (Error ''useAuth must be used within an AuthProvider'')"
  by (simp add: useAuth_def)

text \<open>
  C1. Inside a provider whose value is \<open>c\<close>, the router returns one view, decided by
  \<open>loading\<close>, \<open>user\<close> and \<open>profile\<close> alone and in this order: the loading screen when
  \<open>loading\<close>; else the login form when there is no user; else the profile-provisioning
  screen when there is no profile; else the admin view when the profile's role is
  "admin"; else the client view. Two context values that agree on the three fields
  render the same view.
\<close>

theorem AppContent_priority:
  "(loading c \<longrightarrow> AppContent (Some c # outer) = Inr LoadingScreen) \<and>
   (\<not> loading c \<and> user c = None \<longrightarrow> AppContent (Some c # outer) = Inr AuthForm) \<and>
   (\<not> loading c \<and> user c = Some u \<and> profile c = None \<longrightarrow>
      AppContent (Some c # outer) = Inr (ProfileSetupScreen (user_email u))) \<and>
   (\<not> loading c \<and> user c = Some u \<and> profile c = Some p \<and> role p = ''admin'' \<longrightarrow>
      AppContent (Some c # outer) = Inr AdminPortal) \<and>
   (\<not> loading c \<and> user c = Some u \<and> profile c = Some p \<and> role p \<noteq> ''admin'' \<longrightarrow>
      AppContent (Some c # outer) = Inr ClientPortal) \<and>
   (loading c = loading c' \<and> user c = user c' \<and> profile c = profile c' \<longrightarrow>
      AppContent (Some c # outer) = AppContent (Some c' # outer'))"
proof -
  have pure: "AppContent (Some c # outer) = AppContent (Some c' # outer')"
    if h: "loading c = loading c'" "user c = user c'" "profile c = profile c'"
    by (simp add: AppContent_def useAuth_def h split: option.split)
  have prio:
    "(loading c \<longrightarrow> AppContent (Some c # outer) = Inr LoadingScreen) \<and>
     (\<not> loading c \<and> user c = None \<longrightarrow> AppContent (Some c # outer) = Inr AuthForm) \<and>
     (\<not> loading c \<and> user c = Some u \<and> profile c = None \<longrightarrow>
        AppContent (Some c # outer) = Inr (ProfileSetupScreen (user_email u))) \<and>
     (\<not> loading c \<and> user c = Some u \<and> profile c = Some p \<and> role p = ''admin'' \<longrightarrow>
        AppContent (Some c # outer) = Inr AdminPortal) \<and>
     (\<not> loading c \<and> user c = Some u \<and> profile c = Some p \<and> role p \<noteq> ''admin'' \<longrightarrow>
        AppContent (Some c # outer) = Inr ClientPortal)"
    by (simp add: AppContent_def useAuth_def)
  from prio pure show ?thesis by blast
qed


theorem AppContent_priority_witness:
  "AppContent
     [Some \<lparr>user = Some \<lparr>user_id = ''u1'', user_email = ''a@b.c''\<rparr>,
            profile = Some \<lparr>profile_id = ''u1'', profile_email = ''a@b.c'',
                            full_name = None, role = ''admin'', updated_at = ''t''\<rparr>,
            session = None, loading = False, error = None\<rparr>] = Inr AdminPortal"
  using AppContent_priority
    [of "\<lparr>user = Some \<lparr>user_id = ''u1'', user_email = ''a@b.c''\<rparr>,
          profile = Some \<lparr>profile_id = ''u1'', profile_email = ''a@b.c'',
                          full_name = None, role = ''admin'', updated_at = ''t''\<rparr>,
          session = None, loading = False, error = None\<rparr>" "[]"
        "\<lparr>user_id = ''u1'', user_email = ''a@b.c''\<rparr>"
        "\<lparr>profile_id = ''u1'', profile_email = ''a@b.c'',
          full_name = None, role = ''admin'', updated_at = ''t''\<rparr>"
        "\<lparr>user = None, profile = None, session = None, loading = True, error = None\<rparr>" "[]"]
  by simp

section \<open>Properties of the profile fetch\<close>

text \<open>The fetch writes nothing to the store, and asks the provider at most once per
  remaining attempt: by computation induction on the loop, for any number of retries.\<close>

lemma fetchProfile_loop_no_writes:
  "state_writes (fst (fetchProfile_loop sb userId retries attempt)) = []"
proof (induction sb userId retries attempt rule: fetchProfile_loop.induct)
  case (1 sb userId retries attempt)
  show ?case
  proof (cases "attempt \<le> retries")
    case False
    then show ?thesis
      by (simp add: fetchProfile_loop.simps [of sb userId retries attempt] state_writes_def)
  next
    case le: True
    show ?thesis
    proof (cases "fetch_attempt (from_profiles_select sb userId attempt)")
      case (Inr result)
      with le show ?thesis
        by (simp add: fetchProfile_loop.simps [of sb userId retries attempt] state_writes_def)
    next
      case (Inl e)
      show ?thesis
      proof (cases "attempt = retries")
        case True
        with le Inl show ?thesis
          by (subst fetchProfile_loop.simps) (simp add: state_writes_def)
      next
        case False
        with le Inl "1.IH" [OF le Inl False] show ?thesis
          by (subst fetchProfile_loop.simps) (auto simp: state_writes_def split: prod.splits)
      qed
    qed
  qed
qed




lemma loop_3_1:
  "fetchProfile_loop sb userId 3 (Suc 0) =
     (case fetch_attempt (from_profiles_select sb userId (Suc 0)) of
        Inr result \<Rightarrow> ([Call (SelectProfile userId)], result)
      | Inl e \<Rightarrow>
          (case fetchProfile_loop sb userId 3 2 of
             (later, result) \<Rightarrow>
               (Call (SelectProfile userId) # Sleep 1000 # later, result)))"
  by (subst fetchProfile_loop.simps) (simp add: numeral_2_eq_2 split: sum.split)


text \<open>Every answer is one of three kinds: the row was found, it was "not found", or
  the attempt failed.\<close>

lemma failed_attempt_iff:
  "failed_attempt r \<longleftrightarrow> \<not> not_found r \<and> (\<forall>p. r \<noteq> Resolved (Some p, None))"
  by (induction r rule: fetch_attempt.induct) (simp_all add: failed_attempt_def)


lemma backoff_trace_1: "backoff_trace userId 1 = [Call (SelectProfile userId)]"
  by simp














section \<open>Properties of the bootstrap\<close>

lemma apply_effects_Nil: "apply_effects [] s = s"
  by (simp add: apply_effects_def)

lemma apply_effects_Cons:
  "apply_effects (e # effects) s = apply_effects effects (apply_effect s e)"
  by (simp add: apply_effects_def)

lemma apply_effects_append:
  "apply_effects (xs @ ys) s = apply_effects ys (apply_effects xs s)"
  by (simp add: apply_effects_def)

lemma apply_clearAuthState:
  "apply_effects clearAuthState s =
     s\<lparr>user := None, profile := None, session := None, error := None\<rparr>"
  by (simp add: clearAuthState_def apply_effects_def)

lemma apply_bootstrap_done:
  "apply_effects bootstrap_done s = s\<lparr>loading := False, initialized := True\<rparr>"
  by (simp add: bootstrap_done_def apply_effects_def)

text \<open>
  C2. When the provider is not configured (the flag is false or there is no client),
  \<^verbatim>\<open>initializeAuth\<close> does exactly three things and is finished: it sets the
  configuration message, sets \<open>loading\<close> to false and marks the store initialized. It
  invokes no provider method, waits for nothing and tries nothing again; from the state
  of the first render the store ends with \<open>loading = False\<close>, no user, and that message.
\<close>

theorem initializeAuth_unconfigured:
  "\<not> hasSupabaseConfig \<or> supabase = None \<Longrightarrow>
   initializeAuth hasSupabaseConfig supabase mounted_after_session mounted_after_fetch =
     [SetError (Some ''Supabase is not configured. Please connect to Supabase.''),
      SetLoading False, SetInitialized True] \<and>
   provider_calls
     (initializeAuth hasSupabaseConfig supabase mounted_after_session mounted_after_fetch) = [] \<and>
   loading (apply_effects
     (initializeAuth hasSupabaseConfig supabase mounted_after_session mounted_after_fetch)
     initial_state) = False \<and>
   user (apply_effects
     (initializeAuth hasSupabaseConfig supabase mounted_after_session mounted_after_fetch)
     initial_state) = None \<and>
   error (apply_effects
     (initializeAuth hasSupabaseConfig supabase mounted_after_session mounted_after_fetch)
     initial_state) = Some ''Supabase is not configured. Please connect to Supabase.''"
proof -
  assume "\<not> hasSupabaseConfig \<or> supabase = None"
  then have run:
    "initializeAuth hasSupabaseConfig supabase mounted_after_session mounted_after_fetch =
       [SetError (Some ''Supabase is not configured. Please connect to Supabase.''),
        SetLoading False, SetInitialized True]"
    by (auto simp: initializeAuth_def bootstrap_done_def split: option.splits)
  show ?thesis
    unfolding run by (simp add: provider_calls_def apply_effects_def initial_state_def)
qed

theorem initializeAuth_unconfigured_witness:
  "initializeAuth False (Some example_provider) True True =
     [SetError (Some ''Supabase is not configured. Please connect to Supabase.''),
      SetLoading False, SetInitialized True] \<and>
   initializeAuth True None True True =
     [SetError (Some ''Supabase is not configured. Please connect to Supabase.''),
      SetLoading False, SetInitialized True] \<and>
   error (apply_effects (initializeAuth True None True True) initial_state) =
     Some ''Supabase is not configured. Please connect to Supabase.''"
  using initializeAuth_unconfigured [of False "Some example_provider" True True]
    initializeAuth_unconfigured [of True None True True]
  by (simp add: apply_effects_def initial_state_def)

text \<open>With no client, the listener is not registered and the operations that guard on the
  client do nothing, so nothing changes the store after that bootstrap.\<close>

lemma store_without_client_is_inert:
  "setupAuthListener None = [] \<and> signOut None = [] \<and>
   updateProfile s None updates now = ([], Inr ()) \<and>
   fst (createClient None email password fullName) = []"
  by (simp add: setupAuthListener_def signOut_def updateProfile_def createClient_def
      split: option.split)

lemma loading_writes_append:
  "loading_writes (xs @ ys) = loading_writes xs @ loading_writes ys"
  by (induction xs rule: loading_writes.induct) simp_all

lemma loading_writes_no_writes: "state_writes xs = [] \<Longrightarrow> loading_writes xs = []"
  by (induction xs rule: loading_writes.induct) (simp_all add: state_writes_def)

lemma loading_writes_fetchProfile:
  "loading_writes (fst (fetchProfile supabase userId retries)) = []"
  by (cases supabase)
     (simp_all add: fetchProfile_def loading_writes_no_writes fetchProfile_loop_no_writes)

lemma loading_writes_clearAuthState: "loading_writes clearAuthState = []"
  by (simp add: clearAuthState_def)

lemma loading_writes_bootstrap_done: "loading_writes bootstrap_done = [False]"
  by (simp add: bootstrap_done_def)

lemma loading_writes_initializeAuth:
  "loading_writes (initializeAuth cfg supabase m1 m2) =
     (if \<not> cfg \<or> supabase = None then [False]
      else (case session_race (auth_getSession (the supabase)) of
              Rejected e \<Rightarrow> if m1 then [False] else []
            | Resolved (sess, sessionError) \<Rightarrow>
                if \<not> m1 then []
                else if sessionError \<noteq> None then [False]
                else (case optional_user sess of
                        Some u \<Rightarrow> if m2 then [False] else []
                      | None \<Rightarrow> [False])))"
proof -
  have fetch: "loading_writes fetching = []"
    if "fetchProfile supabase uid default_retries = (fetching, p)" for uid fetching p
    using loading_writes_fetchProfile [of supabase uid default_retries] that by simp
  show ?thesis
    by (auto simp: initializeAuth_def loading_writes_append loading_writes_clearAuthState
        loading_writes_bootstrap_done fetch
        split: option.splits promise.splits prod.splits)
qed

text \<open>
  C9, as stated, fails: with a configured provider that has no stored session, the
  bootstrap ends by setting \<open>loading\<close> to false, and a later \<^verbatim>\<open>signOut()\<close> sets it to
  true (line 248) and to false again (line 270).
\<close>

theorem loading_written_again_after_bootstrap:
  "loading_writes (initializeAuth True (Some example_provider) True True @
      signOut (Some example_provider)) = [False, True, False] \<and>
   loading_writes (initializeAuth True (Some example_provider) True True) = [False] \<and>
   loading_writes (signOut (Some example_provider)) = [True, False] \<and>
   loading (apply_effects (initializeAuth True (Some example_provider) True True)
     initial_state) = False \<and>
   loading (apply_effects [SetLoading True]
     (apply_effects (initializeAuth True (Some example_provider) True True)
        initial_state)) = True"
  by (simp add: initializeAuth_def signOut_def example_provider_def clearAuthState_def
      bootstrap_done_def apply_effects_def initial_state_def)

lemma loading_writes_callback:
  "True \<notin> set (loading_writes (onAuthStateChange_callback held_profile seen_initialized
      supabase mounted_at_entry mounted_after_fetch event sess))"
proof -
  have fetch: "loading_writes fetching = []"
    if "fetchProfile supabase uid default_retries = (fetching, p)" for uid fetching p
    using loading_writes_fetchProfile [of supabase uid default_retries] that by simp
  show ?thesis
    by (auto simp: onAuthStateChange_callback_def event_switch_def adopt_and_fetch_def
        loading_writes_append loading_writes_clearAuthState loading_writes_bootstrap_done
        fetch split: option.splits prod.splits if_splits)
qed

text \<open>
  C9, amended. A run of \<^verbatim>\<open>initializeAuth\<close> never sets \<open>loading\<close> to true and sets it
  to false at most once, and exactly once when the component is still mounted after
  both of its awaits. Afterwards \<open>loading\<close> does go back to true: a call of
  \<^verbatim>\<open>signOut()\<close> with a client sets it to true and then to false, whatever the provider
  answers. The listener never sets it to true.
\<close>

theorem loading_writes_bootstrap_signOut:
  "(loading_writes (initializeAuth cfg supabase m1 m2) = [] \<or>
    loading_writes (initializeAuth cfg supabase m1 m2) = [False]) \<and>
   (m1 \<and> m2 \<longrightarrow> loading_writes (initializeAuth cfg supabase m1 m2) = [False]) \<and>
   loading_writes (signOut (Some sb)) = [True, False] \<and>
   True \<notin> set (loading_writes (onAuthStateChange_callback held_profile seen_initialized
      supabase mounted_at_entry mounted_after_fetch event sess))"
proof (intro conjI impI)
  show "loading_writes (initializeAuth cfg supabase m1 m2) = [] \<or>
    loading_writes (initializeAuth cfg supabase m1 m2) = [False]"
    unfolding loading_writes_initializeAuth
    by (simp split: option.split promise.split prod.split)
next
  assume "m1 \<and> m2"
  then show "loading_writes (initializeAuth cfg supabase m1 m2) = [False]"
    unfolding loading_writes_initializeAuth
    by (simp split: option.split promise.split prod.split)
next
  show "loading_writes (signOut (Some sb)) = [True, False]"
    by (cases "auth_signOut sb") (simp_all add: signOut_def clearAuthState_def)
next
  show "True \<notin> set (loading_writes (onAuthStateChange_callback held_profile seen_initialized
      supabase mounted_at_entry mounted_after_fetch event sess))"
    by (rule loading_writes_callback)
qed

theorem loading_writes_bootstrap_signOut_witness:
  "loading_writes (initializeAuth True
      (Some (example_provider\<lparr>auth_getSession := Some (Resolved (Some example_session, None))\<rparr>))
      True True) = [False] \<and>
   loading_writes (signOut (Some example_provider)) = [True, False]"
  using loading_writes_bootstrap_signOut
    [of True "Some (example_provider\<lparr>auth_getSession := Some (Resolved (Some example_session, None))\<rparr>)"
        True True example_provider None False True True "''SIGNED_OUT''" None]
  by simp

section \<open>Properties of the listener\<close>

lemma callback_SIGNED_OUT:
  "onAuthStateChange_callback held_profile seen_initialized supabase True mounted_after_fetch
     ''SIGNED_OUT'' sess =
   clearAuthState @ (if \<not> seen_initialized then bootstrap_done else [])"
  by (simp add: onAuthStateChange_callback_def event_switch_def)

text \<open>
  C4. While the component is mounted (the callback returns at once otherwise, line
  162), handling SIGNED_OUT leaves \<open>user\<close>, \<open>profile\<close>, \<open>session\<close> and \<open>error\<close> all
  \<^verbatim>\<open>null\<close>: for every prior state \<open>s\<close>, with or without a session in the event, and
  whatever values of \<^verbatim>\<open>profile\<close> and \<^verbatim>\<open>initialized\<close> the callback closes over, in
  particular for the registered listener.
\<close>

theorem signed_out_clears:
  "user (apply_effects (onAuthStateChange_callback held_profile seen_initialized supabase
       True mounted_after_fetch ''SIGNED_OUT'' sess) s) = None \<and>
   profile (apply_effects (onAuthStateChange_callback held_profile seen_initialized supabase
       True mounted_after_fetch ''SIGNED_OUT'' sess) s) = None \<and>
   session (apply_effects (onAuthStateChange_callback held_profile seen_initialized supabase
       True mounted_after_fetch ''SIGNED_OUT'' sess) s) = None \<and>
   error (apply_effects (onAuthStateChange_callback held_profile seen_initialized supabase
       True mounted_after_fetch ''SIGNED_OUT'' sess) s) = None \<and>
   user (apply_effects (auth_listener supabase True mounted_after_fetch ''SIGNED_OUT'' sess) s)
     = None \<and>
   profile (apply_effects (auth_listener supabase True mounted_after_fetch ''SIGNED_OUT'' sess) s)
     = None \<and>
   session (apply_effects (auth_listener supabase True mounted_after_fetch ''SIGNED_OUT'' sess) s)
     = None \<and>
   error (apply_effects (auth_listener supabase True mounted_after_fetch ''SIGNED_OUT'' sess) s)
     = None"
  unfolding auth_listener_def callback_SIGNED_OUT
  by (simp add: apply_effects_append apply_clearAuthState apply_bootstrap_done
      apply_effects_Nil)

theorem signed_out_clears_witness:
  "user (apply_effects (auth_listener (Some example_provider) True True ''SIGNED_OUT''
       (Some example_session)) example_signed_in) = None \<and>
   profile (apply_effects (auth_listener (Some example_provider) True True ''SIGNED_OUT''
       (Some example_session)) example_signed_in) = None \<and>
   session (apply_effects (auth_listener (Some example_provider) True True ''SIGNED_OUT''
       (Some example_session)) example_signed_in) = None \<and>
   error (apply_effects (auth_listener (Some example_provider) True True ''SIGNED_OUT''
       (Some example_session)) example_signed_in) = None"
  using signed_out_clears [of None False "Some example_provider" True "Some example_session"
      example_signed_in]
  by simp

lemma fetchProfile_asks_provider:
  "\<exists>later. fst (fetchProfile (Some sb) userId default_retries) =
     Call (SelectProfile userId) # later"
  by (simp add: fetchProfile_def default_retries_def loop_3_1 split: sum.split prod.split)

lemma provider_calls_append:
  "provider_calls (xs @ ys) = provider_calls xs @ provider_calls ys"
  by (simp add: provider_calls_def)

text \<open>
  What the code of the callback does with the value \<open>held_profile\<close> that it reads: it
  adopts the session and the user, and asks the provider for the profile exactly when
  that value is \<^verbatim>\<open>null\<close> or has another id; without a session it clears the four
  fields.
\<close>

lemma callback_other_event_session:
  assumes "other_event event" and "optional_user sess = Some u"
  shows "provider_calls (onAuthStateChange_callback held_profile seen_initialized (Some sb)
            True mounted_after_fetch event sess) \<noteq> [] \<longleftrightarrow>
         (held_profile = None \<or> profile_id (the held_profile) \<noteq> user_id u)"
    and "session (apply_effects (onAuthStateChange_callback held_profile seen_initialized
            (Some sb) True mounted_after_fetch event sess) s) = sess"
    and "user (apply_effects (onAuthStateChange_callback held_profile seen_initialized
            (Some sb) True mounted_after_fetch event sess) s) = Some u"
proof -
  obtain later p where f: "fetchProfile (Some sb) (user_id u) default_retries =
      (Call (SelectProfile (user_id u)) # later, p)"
    using fetchProfile_asks_provider [of sb "user_id u"]
    by (cases "fetchProfile (Some sb) (user_id u) default_retries") auto
  have w: "state_writes later = []"
    using fetchProfile_loop_no_writes [of sb "user_id u" default_retries 1] f
    by (simp add: fetchProfile_def state_writes_def)
  have keep: "apply_effects later t = t" for t
    using w unfolding state_writes_def apply_effects_def
  proof (induction later arbitrary: t)
    case Nil
    then show ?case by simp
  next
    case (Cons e later)
    then show ?case by (cases e) (simp_all split: if_splits)
  qed
  show "provider_calls (onAuthStateChange_callback held_profile seen_initialized (Some sb)
            True mounted_after_fetch event sess) \<noteq> [] \<longleftrightarrow>
         (held_profile = None \<or> profile_id (the held_profile) \<noteq> user_id u)"
    using assms f
    by (cases held_profile)
       (auto simp: onAuthStateChange_callback_def event_switch_def other_event_def
          adopt_and_fetch_def provider_calls_def bootstrap_done_def)
  show "session (apply_effects (onAuthStateChange_callback held_profile seen_initialized
            (Some sb) True mounted_after_fetch event sess) s) = sess"
    using assms f
    by (cases held_profile)
       (auto simp: onAuthStateChange_callback_def event_switch_def other_event_def
          adopt_and_fetch_def bootstrap_done_def apply_effects_append apply_effects_Cons
          apply_effects_Nil keep)
  show "user (apply_effects (onAuthStateChange_callback held_profile seen_initialized
            (Some sb) True mounted_after_fetch event sess) s) = Some u"
    using assms f
    by (cases held_profile)
       (auto simp: onAuthStateChange_callback_def event_switch_def other_event_def
          adopt_and_fetch_def bootstrap_done_def apply_effects_append apply_effects_Cons
          apply_effects_Nil keep)
qed

lemma callback_other_event_no_session:
  assumes "other_event event"
  shows "onAuthStateChange_callback held_profile seen_initialized supabase
            True mounted_after_fetch event None =
         clearAuthState @ (if \<not> seen_initialized then bootstrap_done else [])"
  using assms
  by (simp add: onAuthStateChange_callback_def event_switch_def other_event_def)

text \<open>
  The registered listener reads the \<^verbatim>\<open>profile\<close> of the first render, which is
  \<^verbatim>\<open>null\<close>: it asks the provider for the profile on every such event, whatever the
  store holds.
\<close>

lemma auth_listener_other_event_always_fetches:
  assumes "other_event event" and "optional_user sess = Some u"
  shows "provider_calls (auth_listener (Some sb) True mounted_after_fetch event sess) \<noteq> []"
  using callback_other_event_session(1) [OF assms, of None False sb mounted_after_fetch]
  by (simp add: auth_listener_def initial_state_def)

text \<open>
  C8 fails on the code. The store holds the profile of user u1, and a PASSWORD_RECOVERY
  event (none of the four named events) arrives with a session of the same user u1: no
  profile should be fetched (line 203: "Only fetch profile if we don't have one or user
  changed"), but the listener asks the provider for the profile of u1 and replaces the
  held profile with the answer.
\<close>

theorem auth_listener_refetches_held_profile:
  "profile example_signed_in = Some example_profile \<and>
   profile_id example_profile = user_id example_user \<and>
   other_event ''PASSWORD_RECOVERY'' \<and>
   optional_user (Some example_session) = Some example_user \<and>
   auth_listener (Some example_provider) True True ''PASSWORD_RECOVERY''
       (Some example_session) =
     [SetSession (Some example_session), SetUser (Some example_user),
      Call (SelectProfile ''u1''), SetProfile (Some example_profile),
      SetLoading False, SetInitialized True]"
  by (simp add: auth_listener_def onAuthStateChange_callback_def event_switch_def
      adopt_and_fetch_def fetchProfile_def default_retries_def loop_3_1 initial_state_def
      example_signed_in_def example_profile_def example_user_def example_session_def
      example_provider_def other_event_def bootstrap_done_def)

section \<open>Properties of the operations\<close>

text \<open>
  C5, as stated, fails: when the provider's sign-out call throws, the \<^verbatim>\<open>catch\<close> of lines
  265-268 navigates to "/" without calling \<^verbatim>\<open>clearAuthState\<close>. From a signed-in store
  the run navigates, and \<open>user\<close>, \<open>profile\<close> and \<open>session\<close> are still the ones held
  before.
\<close>

theorem signOut_throw_keeps_state:
  "auth_signOut provider_signOut_throws = Rejected (Error ''Failed to fetch'') \<and>
   signOut (Some provider_signOut_throws) =
     [SetLoading True, Call SignOut, Navigate ''/'', SetLoading False] \<and>
   user (apply_effects (signOut (Some provider_signOut_throws)) example_signed_in) =
     Some example_user \<and>
   profile (apply_effects (signOut (Some provider_signOut_throws)) example_signed_in) =
     Some example_profile \<and>
   session (apply_effects (signOut (Some provider_signOut_throws)) example_signed_in) =
     Some example_session"
  by (simp add: signOut_def provider_signOut_throws_def example_provider_def
      example_signed_in_def apply_effects_def)

text \<open>
  C5, amended. With a client, every call of \<^verbatim>\<open>signOut()\<close> navigates to "/": at once when
  the provider's call throws, and from a 100 ms timer when it returns, with an error or
  without. Whenever the provider's call returns, whatever it returns, the store ends
  with \<open>user\<close>, \<open>profile\<close>, \<open>session\<close> and \<open>error\<close> all \<^verbatim>\<open>null\<close>, from every state.
  When the call throws, the store is left as it was but for \<open>loading\<close>, which is false.
\<close>

theorem signOut_always_navigates:
  "navigates_to ''/'' (signOut (Some sb)) \<and>
   (auth_signOut sb = Rejected e \<longrightarrow>
      Navigate ''/'' \<in> set (signOut (Some sb)) \<and>
      apply_effects (signOut (Some sb)) s = s\<lparr>loading := False\<rparr>) \<and>
   (auth_signOut sb = Resolved signOutError \<longrightarrow>
      SetTimeoutNavigate 100 ''/'' \<in> set (signOut (Some sb)) \<and>
      user (apply_effects (signOut (Some sb)) s) = None \<and>
      profile (apply_effects (signOut (Some sb)) s) = None \<and>
      session (apply_effects (signOut (Some sb)) s) = None \<and>
      error (apply_effects (signOut (Some sb)) s) = None)"
  by (cases "auth_signOut sb")
     (simp_all add: signOut_def navigates_to_def clearAuthState_def apply_effects_def)

theorem signOut_always_navigates_witness:
  "navigates_to ''/'' (signOut (Some provider_signOut_error)) \<and>
   SetTimeoutNavigate 100 ''/'' \<in> set (signOut (Some provider_signOut_error)) \<and>
   user (apply_effects (signOut (Some provider_signOut_error)) example_signed_in) = None \<and>
   profile (apply_effects (signOut (Some provider_signOut_error)) example_signed_in) = None \<and>
   session (apply_effects (signOut (Some provider_signOut_error)) example_signed_in) = None \<and>
   error (apply_effects (signOut (Some provider_signOut_error)) example_signed_in) = None \<and>
   navigates_to ''/'' (signOut (Some provider_signOut_throws)) \<and>
   Navigate ''/'' \<in> set (signOut (Some provider_signOut_throws)) \<and>
   apply_effects (signOut (Some provider_signOut_throws)) example_signed_in =
     example_signed_in\<lparr>loading := False\<rparr>"
  using signOut_always_navigates [where sb = provider_signOut_error
      and e = "Error ''Failed to fetch''"
      and signOutError = "Some (ProviderError ''session_not_found'')"
      and s = example_signed_in]
    signOut_always_navigates [where sb = provider_signOut_throws
      and e = "Error ''Failed to fetch''"
      and signOutError = "Some (ProviderError ''session_not_found'')"
      and s = example_signed_in]
  by (simp add: provider_signOut_error_def provider_signOut_throws_def example_provider_def)

text \<open>
  C6. On a store with no user, \<^verbatim>\<open>updateProfile(updates)\<close> returns normally for every
  \<open>updates\<close>, with no effect at all: no provider call, and the state is the one before.
\<close>

theorem updateProfile_unauthenticated_noop:
  "user s = None \<Longrightarrow>
   updateProfile s supabase updates now = ([], Inr ()) \<and>
   provider_calls (fst (updateProfile s supabase updates now)) = [] \<and>
   apply_effects (fst (updateProfile s supabase updates now)) s = s"
  by (simp add: updateProfile_def provider_calls_def apply_effects_def)

theorem updateProfile_unauthenticated_noop_witness:
  "user initial_state = None \<and>
   updateProfile initial_state (Some example_provider) [(''full_name'', ''Ada L.'')]
     ''2024-06-01T12:00:00.000Z'' = ([], Inr ())"
proof -
  have h: "user initial_state = None" by (simp add: initial_state_def)
  from updateProfile_unauthenticated_noop [OF h, of "Some example_provider"
      "[(''full_name'', ''Ada L.'')]" "''2024-06-01T12:00:00.000Z''"] h
  show ?thesis by simp
qed

text \<open>
  C7. When account creation succeeds and the profile insert then fails (it returns an
  error or throws), \<^verbatim>\<open>createClient\<close> rethrows that error; its run is the two provider
  calls and nothing else, so no call undoes the created account, and it writes nothing
  to the store: \<open>user\<close>, \<open>profile\<close> and \<open>session\<close> are what they were.
\<close>

theorem createClient_insert_failure:
  "auth_admin_createUser sb email password fullName = Resolved (Some created, None) \<Longrightarrow>
   from_profiles_insert sb (user_id created) email fullName ''client'' = Resolved (Some e) \<or>
   from_profiles_insert sb (user_id created) email fullName ''client'' = Rejected e \<Longrightarrow>
   createClient (Some sb) email password fullName =
     ([Call (AdminCreateUser email password fullName),
       Call (InsertProfile (user_id created) email fullName ''client'')], Inl e) \<and>
   state_writes (fst (createClient (Some sb) email password fullName)) = [] \<and>
   apply_effects (fst (createClient (Some sb) email password fullName)) s = s"
  by (auto simp: createClient_def state_writes_def apply_effects_def)

theorem createClient_insert_failure_witness:
  "createClient (Some provider_insert_error) ''bob@example.org'' ''secret'' (Some ''Bob'') =
     ([Call (AdminCreateUser ''bob@example.org'' ''secret'' (Some ''Bob'')),
       Call (InsertProfile ''u2'' ''bob@example.org'' (Some ''Bob'') ''client'')],
      Inl (ProviderError ''23505'')) \<and>
   apply_effects
     (fst (createClient (Some provider_insert_error) ''bob@example.org'' ''secret''
        (Some ''Bob''))) example_signed_in = example_signed_in"
proof -
  have created:
    "auth_admin_createUser provider_insert_error ''bob@example.org'' ''secret'' (Some ''Bob'') =
       Resolved (Some \<lparr>user_id = ''u2'', user_email = ''bob@example.org''\<rparr>, None)"
    by (simp add: provider_insert_error_def example_provider_def)
  have failed:
    "from_profiles_insert provider_insert_error
        (user_id \<lparr>user_id = ''u2'', user_email = ''bob@example.org''\<rparr>)
        ''bob@example.org'' (Some ''Bob'') ''client'' = Resolved (Some (ProviderError ''23505'')) \<or>
     from_profiles_insert provider_insert_error
        (user_id \<lparr>user_id = ''u2'', user_email = ''bob@example.org''\<rparr>)
        ''bob@example.org'' (Some ''Bob'') ''client'' = Rejected (ProviderError ''23505'')"
    by (simp add: provider_insert_error_def)
  from createClient_insert_failure [OF created failed, of example_signed_in]
  show ?thesis by (simp add: apply_effects_def)
qed

end
